theory Spec2Isabelle
  imports Main
begin

section \<open>JavaScript values reaching the form adapters\<close>

text \<open>
  An error descriptor is whatever the validator returned: the adapters inspect it with
  \<^verbatim>\<open>typeof\<close>, \<^verbatim>\<open>"message" in\<close> and \<^verbatim>\<open>String(...)\<close>. A descriptor is modelled as a
  JavaScript value: \<^verbatim>\<open>undefined\<close>, \<^verbatim>\<open>null\<close>, a boolean, a number, a string, or a plain
  object given by its own properties. React children are values of the same type (an
  element is an object).

  The adapters never compute with a number: they can only print it and test its
  truthiness. A number is therefore given by these two observations, the text that
  \<^verbatim>\<open>String\<close> prints for it and whether it is truthy: \<open>JNum ''42'' True\<close> is 42,
  \<open>JNum ''0.5'' True\<close> is 0.5, \<open>JNum ''1e+21'' True\<close> is 10 to the 21st,
  \<open>JNum ''0'' False\<close> is zero and \<open>JNum ''NaN'' False\<close> is \<^verbatim>\<open>NaN\<close>.
\<close>

datatype jsval =
    JUndefined
  | JNull
  | JBool bool
  | JNum string bool
  | JStr string
  | JObj "(string \<times> jsval) list"

text \<open>\<^verbatim>\<open>String(v)\<close>; a plain object has no \<^verbatim>\<open>toString\<close> of its own.\<close>

fun js_String :: "jsval \<Rightarrow> string" where
  "js_String JUndefined = ''undefined''"
| "js_String JNull = ''null''"
| "js_String (JBool b) = (if b then ''true'' else ''false'')"
| "js_String (JNum txt t) = txt"
| "js_String (JStr s) = s"
| "js_String (JObj ps) = ''[object Object]''"

text \<open>Truthiness, as \<^verbatim>\<open>!v\<close> and \<^verbatim>\<open>v ? a : b\<close> read it.\<close>

fun truthy :: "jsval \<Rightarrow> bool" where
  "truthy JUndefined = False"
| "truthy JNull = False"
| "truthy (JBool b) = b"
| "truthy (JNum txt t) = t"
| "truthy (JStr s) = (s \<noteq> [])"
| "truthy (JObj ps) = True"

text \<open>\<^verbatim>\<open>a ?? b\<close>: the right operand only when the left one is \<^verbatim>\<open>null\<close> or \<^verbatim>\<open>undefined\<close>.\<close>

fun nullish :: "jsval \<Rightarrow> jsval \<Rightarrow> jsval" where
  "nullish JUndefined b = b"
| "nullish JNull b = b"
| "nullish a b = a"

datatype js_error = Error string

section \<open>The external form-state container, as the adapters read it\<close>

record field_meta =
  errors :: "jsval list"
  isTouched :: bool
  isValid :: bool
  isDirty :: bool
  isValidating :: bool

record form_state =
  submissionAttempts :: nat

text \<open>A field handle: \<^verbatim>\<open>field.state.meta\<close> and \<^verbatim>\<open>field.form.store.state\<close>.\<close>

record field_api =
  meta :: field_meta
  form :: form_state

section \<open>Rendered elements\<close>

text \<open>
  A submit handler is the sequence of calls it makes on the event and on the container.
  A prop is a value or a handler; an element is a tag with its props, the later entry of
  a JSX attribute list winning over an earlier one of the same name.
\<close>

datatype submit_call = StopPropagation | PreventDefault | HandleSubmit | CallerCall string

datatype attr = AVal jsval | AHandler "submit_call list"

type_synonym props = "string \<rightharpoonup> attr"

record element =
  tag :: string
  attrs :: props

text \<open>
  Delivery of a native submit event to a rendered form: React runs the element's
  \<^verbatim>\<open>onSubmit\<close> handler when it has one; with none, nothing is called and the browser's
  default action proceeds.
\<close>

definition dispatch_submit :: "element \<Rightarrow> submit_call list" where
  "dispatch_submit el =
     (case attrs el ''onSubmit'' of Some (AHandler h) \<Rightarrow> h | _ \<Rightarrow> [])"

text \<open>Destructuring \<^verbatim>\<open>{ className, ...props }\<close>: the rest has no \<^verbatim>\<open>className\<close>.\<close>

definition rest_props :: "props \<Rightarrow> props" where
  "rest_props p = p(''className'' := None)"

section \<open>src/components/ui/form.tsx\<close>

text \<open>
  \<^verbatim>\<open>useFormContext()\<close> belongs to the container library; the handle it returns is the one
  whose \<^verbatim>\<open>handleSubmit\<close> the call \<^const>\<open>HandleSubmit\<close> stands for.
\<close>

definition Form :: "props \<Rightarrow> element" where
  "Form props =
     \<lparr>tag = ''form'',
      attrs = [''onSubmit'' \<mapsto> AHandler [StopPropagation, PreventDefault, HandleSubmit]]
              ++ props\<rparr>"

definition showError :: "field_api \<Rightarrow> bool" where
  "showError field = (isTouched (meta field) \<or> submissionAttempts (form field) > 0)"

text \<open>
  The \<^verbatim>\<open>typeof\<close> chain on \<^verbatim>\<open>errors[0]\<close>: a string is taken as it is; an object (which
  \<^verbatim>\<open>null\<close> is not, by the second test) gives its \<^verbatim>\<open>message\<close> when that is a string and
  nothing otherwise; of the rest, \<^verbatim>\<open>null\<close> and \<^verbatim>\<open>undefined\<close> give nothing and any
  other value is stringified.
\<close>

fun firstErrorMessage :: "jsval \<Rightarrow> string option" where
  "firstErrorMessage (JStr s) = Some s"
| "firstErrorMessage (JObj ps) =
     (case map_of ps ''message'' of Some (JStr m) \<Rightarrow> Some m | _ \<Rightarrow> None)"
| "firstErrorMessage JNull = None"
| "firstErrorMessage JUndefined = None"
| "firstErrorMessage (JBool b) = Some (js_String (JBool b))"
| "firstErrorMessage (JNum txt t) = Some (js_String (JNum txt t))"

record form_item =
  formControlId :: string
  formDescriptionId :: string
  formMessageId :: string
  error :: "string option"
  hasError :: bool

text \<open>
  \<^verbatim>\<open>useFormItemContext\<close>, given the field handle that \<^verbatim>\<open>useFieldContext()\<close> returned and
  the value of \<^verbatim>\<open>IdContext\<close> (\<open>None\<close> is its default \<^verbatim>\<open>null\<close>).
\<close>

definition useFormItemContext :: "field_api \<Rightarrow> string option \<Rightarrow> js_error + form_item" where
  "useFormItemContext field idContext =
     (case idContext of
        None \<Rightarrow> Inl (Error ''Form Item components should be used within <FormItem>'')
      | Some i \<Rightarrow>
          (let errorMessage =
                 (if showError field \<and> length (errors (meta field)) > 0
                  then firstErrorMessage (errors (meta field) ! 0)
                  else None)
           in Inr \<lparr>formControlId = i @ ''-form-item'',
                   formDescriptionId = i @ ''-form-item-description'',
                   formMessageId = i @ ''-form-item-message'',
                   error = errorMessage,
                   hasError = (showError field \<and> errorMessage \<noteq> None)\<rparr>))"

text \<open>
  The components below take \<^verbatim>\<open>cn\<close> of \<^verbatim>\<open>@/lib/utils\<close> as a parameter, the identifier of
  \<^verbatim>\<open>React.useId()\<close> where they make one, and the caller's props.
\<close>

text \<open>\<^verbatim>\<open>FormItem\<close>: the identifier it provides as the \<^verbatim>\<open>IdContext\<close>, and its element.\<close>

definition FormItem ::
  "(string \<Rightarrow> attr option \<Rightarrow> attr) \<Rightarrow> string \<Rightarrow> props \<Rightarrow> string option \<times> element" where
  "FormItem cn i p =
     (Some i,
      \<lparr>tag = ''div'',
       attrs = [''data-slot'' \<mapsto> AVal (JStr ''form-item''),
                ''className'' \<mapsto> cn ''grid gap-2'' (p ''className'')]
               ++ rest_props p\<rparr>)"

definition FormLabel ::
  "(string \<Rightarrow> attr option \<Rightarrow> attr) \<Rightarrow> field_api \<Rightarrow> string option \<Rightarrow> props \<Rightarrow> js_error + element" where
  "FormLabel cn field idContext p =
     (case useFormItemContext field idContext of
        Inl e \<Rightarrow> Inl e
      | Inr formItem \<Rightarrow>
          Inr \<lparr>tag = ''Label'',
               attrs = [''data-slot'' \<mapsto> AVal (JStr ''form-label''),
                        ''data-error'' \<mapsto> AVal (JBool (hasError formItem)),
                        ''className'' \<mapsto> cn ''data-[error=true]:text-destructive'' (p ''className''),
                        ''htmlFor'' \<mapsto> AVal (JStr (formControlId formItem))]
                       ++ rest_props p\<rparr>)"

definition FormControl :: "field_api \<Rightarrow> string option \<Rightarrow> props \<Rightarrow> js_error + element" where
  "FormControl field idContext p =
     (case useFormItemContext field idContext of
        Inl e \<Rightarrow> Inl e
      | Inr formItem \<Rightarrow>
          (let describedBy =
                 (if hasError formItem
                  then formDescriptionId formItem @ '' '' @ formMessageId formItem
                  else formDescriptionId formItem)
           in Inr \<lparr>tag = ''Slot'',
                   attrs = [''data-slot'' \<mapsto> AVal (JStr ''form-control''),
                            ''id'' \<mapsto> AVal (JStr (formControlId formItem)),
                            ''aria-describedby'' \<mapsto> AVal (JStr describedBy),
                            ''aria-invalid'' \<mapsto> AVal (JBool (hasError formItem))]
                           ++ p\<rparr>))"

definition FormDescription ::
  "(string \<Rightarrow> attr option \<Rightarrow> attr) \<Rightarrow> field_api \<Rightarrow> string option \<Rightarrow> props \<Rightarrow> js_error + element" where
  "FormDescription cn field idContext p =
     (case useFormItemContext field idContext of
        Inl e \<Rightarrow> Inl e
      | Inr formItem \<Rightarrow>
          Inr \<lparr>tag = ''p'',
               attrs = [''data-slot'' \<mapsto> AVal (JStr ''form-description''),
                        ''id'' \<mapsto> AVal (JStr (formDescriptionId formItem)),
                        ''className'' \<mapsto> cn ''text-muted-foreground text-sm'' (p ''className'')]
                       ++ rest_props p\<rparr>)"

text \<open>A prop read as a value: an absent prop reads as \<^verbatim>\<open>undefined\<close>.\<close>

definition prop_value :: "props \<Rightarrow> string \<Rightarrow> jsval" where
  "prop_value p k = (case p k of Some (AVal v) \<Rightarrow> v | Some (AHandler h) \<Rightarrow> JObj [] | None \<Rightarrow> JUndefined)"

text \<open>
  \<^verbatim>\<open>FormMessage\<close>: \<open>Inr None\<close> is the \<^verbatim>\<open>return null\<close>, no DOM node. The JSX children
  \<^verbatim>\<open>{body}\<close> come after the spread and replace \<^verbatim>\<open>props.children\<close>.
\<close>

definition FormMessage ::
  "(string \<Rightarrow> attr option \<Rightarrow> attr) \<Rightarrow> field_api \<Rightarrow> string option \<Rightarrow> props \<Rightarrow> js_error + element option" where
  "FormMessage cn field idContext p =
     (case useFormItemContext field idContext of
        Inl e \<Rightarrow> Inl e
      | Inr formItem \<Rightarrow>
          (let body = nullish (case error formItem of None \<Rightarrow> JNull | Some m \<Rightarrow> JStr m)
                              (prop_value (rest_props p) ''children'')
           in if \<not> truthy body then Inr None
              else Inr (Some \<lparr>tag = ''p'',
                              attrs = ([''data-slot'' \<mapsto> AVal (JStr ''form-message''),
                                        ''id'' \<mapsto> AVal (JStr (formMessageId formItem)),
                                        ''className'' \<mapsto> cn ''text-destructive text-sm'' (p ''className'')]
                                       ++ rest_props p)
                                      (''children'' \<mapsto> AVal body)\<rparr>)))"

section \<open>The adapter of the second form module (part 001)\<close>

text \<open>
  \<^verbatim>\<open>Form\<close> destructures \<^verbatim>\<open>{ form, children, ...props }\<close>, provides \<^verbatim>\<open>{ form }\<close> as the
  \<^verbatim>\<open>FormContext\<close> and renders \<^verbatim>\<open><form {...props}>{children}</form>\<close>: the pair is the
  provided context and the element. It installs no handler of its own.
\<close>

definition Form_part001 :: "form_state \<Rightarrow> jsval \<Rightarrow> props \<Rightarrow> form_state option \<times> element" where
  "Form_part001 frm children p =
     (Some frm,
      \<lparr>tag = ''form'',
       attrs = (p(''form'' := None))(''children'' \<mapsto> AVal children)\<rparr>)"

record FormFieldContextValue =
  ctx_field :: "field_api option"
  ctx_name :: string

text \<open>
  \<^verbatim>\<open>FormField\<close> reads the \<^verbatim>\<open>FormContext\<close> (\<open>None\<close> is its default \<^verbatim>\<open>form: null\<close>); the
  field handle is the one \<^verbatim>\<open>form.Field\<close> passes to its render callback. The result is the
  provided \<^verbatim>\<open>FormFieldContext\<close> and what the children render.
\<close>

definition FormField ::
  "form_state option \<Rightarrow> string \<Rightarrow> field_api \<Rightarrow> (field_api \<Rightarrow> 'node)
     \<Rightarrow> js_error + (FormFieldContextValue \<times> 'node)" where
  "FormField formCtx nm fld children =
     (case formCtx of
        None \<Rightarrow> Inl (Error ''FormField must be used within a Form component'')
      | Some frm \<Rightarrow> Inr (\<lparr>ctx_field = Some fld, ctx_name = nm\<rparr>, children fld))"

text \<open>An identifier inside a template literal: \<^verbatim>\<open>undefined\<close> prints as its name.\<close>

definition template_id :: "string option \<Rightarrow> string" where
  "template_id i = (case i of None \<Rightarrow> ''undefined'' | Some s \<Rightarrow> s)"

text \<open>
  The message of \<^verbatim>\<open>errors[0]\<close>: the \<^verbatim>\<open>message\<close> property of a non-null object that has
  one, whatever its type, and \<^verbatim>\<open>String(errors[0])\<close> otherwise.
\<close>

fun fieldErrorMessage :: "jsval \<Rightarrow> jsval" where
  "fieldErrorMessage (JObj ps) =
     (case map_of ps ''message'' of Some m \<Rightarrow> m | None \<Rightarrow> JStr (js_String (JObj ps)))"
| "fieldErrorMessage e = JStr (js_String e)"

record field_error =
  message :: jsval

record form_field =
  ff_id :: "string option"
  ff_name :: string
  formItemId :: string
  ff_formDescriptionId :: string
  ff_formMessageId :: string
  ff_error :: "field_error option"
  invalid :: bool
  ff_isDirty :: bool
  ff_isTouched :: bool
  ff_isValidating :: bool

text \<open>
  \<^verbatim>\<open>useFormField\<close>, given the values of \<^verbatim>\<open>FormFieldContext\<close> and of
  \<^verbatim>\<open>FormItemContext\<close>; the default of the latter is \<^verbatim>\<open>{}\<close>, whose \<^verbatim>\<open>id\<close> is
  \<^verbatim>\<open>undefined\<close> (\<open>None\<close>). An array is truthy, so \<^verbatim>\<open>errors && errors.length > 0\<close> is the
  length test.
\<close>

definition useFormField :: "FormFieldContextValue \<Rightarrow> string option \<Rightarrow> js_error + form_field" where
  "useFormField fieldContext itemId =
     (case ctx_field fieldContext of
        None \<Rightarrow> Inl (Error ''useFormField should be used within <FormField>'')
      | Some fld \<Rightarrow>
          Inr \<lparr>ff_id = itemId,
               ff_name = ctx_name fieldContext,
               formItemId = template_id itemId @ ''-form-item'',
               ff_formDescriptionId = template_id itemId @ ''-form-item-description'',
               ff_formMessageId = template_id itemId @ ''-form-item-message'',
               ff_error =
                 (if length (errors (meta fld)) > 0
                  then Some \<lparr>message = fieldErrorMessage (errors (meta fld) ! 0)\<rparr>
                  else None),
               invalid = (\<not> isValid (meta fld) \<and> isTouched (meta fld)),
               ff_isDirty = isDirty (meta fld),
               ff_isTouched = isTouched (meta fld),
               ff_isValidating = isValidating (meta fld)\<rparr>)"

definition FormItem_part001 ::
  "(string \<Rightarrow> attr option \<Rightarrow> attr) \<Rightarrow> string \<Rightarrow> props \<Rightarrow> string option \<times> element" where
  "FormItem_part001 cn i p =
     (Some i,
      \<lparr>tag = ''div'',
       attrs = [''data-slot'' \<mapsto> AVal (JStr ''form-item''),
                ''className'' \<mapsto> cn ''grid gap-2'' (p ''className'')]
               ++ rest_props p\<rparr>)"

definition FormLabel_part001 ::
  "(string \<Rightarrow> attr option \<Rightarrow> attr) \<Rightarrow> FormFieldContextValue \<Rightarrow> string option \<Rightarrow> props
     \<Rightarrow> js_error + element" where
  "FormLabel_part001 cn fieldContext itemId p =
     (case useFormField fieldContext itemId of
        Inl e \<Rightarrow> Inl e
      | Inr r \<Rightarrow>
          Inr \<lparr>tag = ''Label'',
               attrs = [''data-slot'' \<mapsto> AVal (JStr ''form-label''),
                        ''data-error'' \<mapsto> AVal (JBool (ff_error r \<noteq> None)),
                        ''className'' \<mapsto> cn ''data-[error=true]:text-destructive'' (p ''className''),
                        ''htmlFor'' \<mapsto> AVal (JStr (formItemId r))]
                       ++ rest_props p\<rparr>)"

definition FormControl_part001 ::
  "FormFieldContextValue \<Rightarrow> string option \<Rightarrow> props \<Rightarrow> js_error + element" where
  "FormControl_part001 fieldContext itemId p =
     (case useFormField fieldContext itemId of
        Inl e \<Rightarrow> Inl e
      | Inr r \<Rightarrow>
          Inr \<lparr>tag = ''Slot'',
               attrs = [''data-slot'' \<mapsto> AVal (JStr ''form-control''),
                        ''id'' \<mapsto> AVal (JStr (formItemId r)),
                        ''aria-describedby'' \<mapsto>
                          AVal (JStr (if ff_error r = None
                                      then ff_formDescriptionId r
                                      else ff_formDescriptionId r @ '' '' @ ff_formMessageId r)),
                        ''aria-invalid'' \<mapsto> AVal (JBool (ff_error r \<noteq> None))]
                       ++ p\<rparr>)"

definition FormDescription_part001 ::
  "(string \<Rightarrow> attr option \<Rightarrow> attr) \<Rightarrow> FormFieldContextValue \<Rightarrow> string option \<Rightarrow> props
     \<Rightarrow> js_error + element" where
  "FormDescription_part001 cn fieldContext itemId p =
     (case useFormField fieldContext itemId of
        Inl e \<Rightarrow> Inl e
      | Inr r \<Rightarrow>
          Inr \<lparr>tag = ''p'',
               attrs = [''data-slot'' \<mapsto> AVal (JStr ''form-description''),
                        ''id'' \<mapsto> AVal (JStr (ff_formDescriptionId r)),
                        ''className'' \<mapsto> cn ''text-muted-foreground text-sm'' (p ''className'')]
                       ++ rest_props p\<rparr>)"

text \<open>
  \<^verbatim>\<open>FormMessage\<close>: the error object, when there is one, is truthy, and the body is
  \<^verbatim>\<open>String(error?.message ?? "")\<close>; otherwise the body is \<^verbatim>\<open>props.children\<close>.
\<close>

definition FormMessage_part001 ::
  "(string \<Rightarrow> attr option \<Rightarrow> attr) \<Rightarrow> FormFieldContextValue \<Rightarrow> string option \<Rightarrow> props
     \<Rightarrow> js_error + element option" where
  "FormMessage_part001 cn fieldContext itemId p =
     (case useFormField fieldContext itemId of
        Inl e \<Rightarrow> Inl e
      | Inr r \<Rightarrow>
          (let body = (case ff_error r of
                         Some e \<Rightarrow> JStr (js_String (nullish (message e) (JStr [])))
                       | None \<Rightarrow> prop_value (rest_props p) ''children'')
           in if \<not> truthy body then Inr None
              else Inr (Some \<lparr>tag = ''p'',
                              attrs = ([''data-slot'' \<mapsto> AVal (JStr ''form-message''),
                                        ''id'' \<mapsto> AVal (JStr (ff_formMessageId r)),
                                        ''className'' \<mapsto> cn ''text-destructive text-sm'' (p ''className'')]
                                       ++ rest_props p)
                                      (''children'' \<mapsto> AVal body)\<rparr>)))"

text \<open>A field snapshot for the examples: its errors, its touched flag, the attempts so far.\<close>

abbreviation mk_field :: "jsval list \<Rightarrow> bool \<Rightarrow> nat \<Rightarrow> field_api" where
  "mk_field es t n \<equiv>
     \<lparr>meta = \<lparr>errors = es, isTouched = t, isValid = (es = []), isDirty = t, isValidating = False\<rparr>,
      form = \<lparr>submissionAttempts = n\<rparr>\<rparr>"

text \<open>
  \<^verbatim>\<open>cn\<close> of \<^verbatim>\<open>@/lib/utils\<close> (\<^verbatim>\<open>clsx\<close>, then \<^verbatim>\<open>twMerge\<close>) is not among these files, and the
  components take it as a parameter. The examples need one value for it: \<open>cn_join\<close> is
  what it computes on class names that do not conflict, the component's own classes
  followed by the caller's, separated by a space, and the component's own classes alone
  when the caller gives none.
\<close>

definition cn_join :: "string \<Rightarrow> attr option \<Rightarrow> attr" where
  "cn_join base cls =
     AVal (JStr (case cls of Some (AVal (JStr c)) \<Rightarrow> base @ '' '' @ c | _ \<Rightarrow> base))"

section \<open>What the two hooks return inside their scopes\<close>

lemma useFormItemContext_Some:
  "useFormItemContext fld (Some i) =
     Inr \<lparr>formControlId = i @ ''-form-item'',
          formDescriptionId = i @ ''-form-item-description'',
          formMessageId = i @ ''-form-item-message'',
          error = (if showError fld \<and> errors (meta fld) \<noteq> []
                   then firstErrorMessage (errors (meta fld) ! 0) else None),
          hasError = (showError fld \<and> errors (meta fld) \<noteq> []
                      \<and> firstErrorMessage (errors (meta fld) ! 0) \<noteq> None)\<rparr>"
  by (simp add: useFormItemContext_def Let_def)

lemma firstErrorMessage_Some_iff:
  "firstErrorMessage d \<noteq> None \<longleftrightarrow>
     (\<exists>s. d = JStr s) \<or> (\<exists>b. d = JBool b) \<or> (\<exists>txt t. d = JNum txt t)
     \<or> (\<exists>ps m. d = JObj ps \<and> map_of ps ''message'' = Some (JStr m))"
  by (cases d) (auto split: option.splits jsval.splits)

lemma useFormField_Some:
  "useFormField \<lparr>ctx_field = Some fld, ctx_name = nm\<rparr> iid =
     Inr \<lparr>ff_id = iid,
          ff_name = nm,
          formItemId = template_id iid @ ''-form-item'',
          ff_formDescriptionId = template_id iid @ ''-form-item-description'',
          ff_formMessageId = template_id iid @ ''-form-item-message'',
          ff_error = (if errors (meta fld) \<noteq> []
                      then Some \<lparr>message = fieldErrorMessage (errors (meta fld) ! 0)\<rparr> else None),
          invalid = (\<not> isValid (meta fld) \<and> isTouched (meta fld)),
          ff_isDirty = isDirty (meta fld),
          ff_isTouched = isTouched (meta fld),
          ff_isValidating = isValidating (meta fld)\<rparr>"
  by (simp add: useFormField_def)

section \<open>The error projection\<close>

text \<open>
  C1 (as amended). In \<^verbatim>\<open>useFormItemContext\<close> the projected message is non-null exactly
  when \<^verbatim>\<open>showError\<close> holds, the error list is non-empty and its first descriptor is a
  string, a boolean, a number or an object whose \<^verbatim>\<open>message\<close> is a string; in
  \<^verbatim>\<open>useFormField\<close> the error is non-null exactly when the error list is non-empty,
  whatever the touched flag and the submission attempts.
\<close>

theorem C1_displayed_message_iff:
  "(\<exists>r. useFormItemContext fld (Some i) = Inr r \<and>
        (error r \<noteq> None \<longleftrightarrow>
           showError fld \<and> errors (meta fld) \<noteq> [] \<and>
           ((\<exists>s. errors (meta fld) ! 0 = JStr s) \<or> (\<exists>b. errors (meta fld) ! 0 = JBool b)
            \<or> (\<exists>txt t. errors (meta fld) ! 0 = JNum txt t)
            \<or> (\<exists>ps m. errors (meta fld) ! 0 = JObj ps \<and> map_of ps ''message'' = Some (JStr m)))))
   \<and> (\<exists>r. useFormField \<lparr>ctx_field = Some fld, ctx_name = nm\<rparr> iid = Inr r \<and>
        (ff_error r \<noteq> None \<longleftrightarrow> errors (meta fld) \<noteq> []))"
  using firstErrorMessage_Some_iff [of "errors (meta fld) ! 0"]
  by (simp add: useFormItemContext_Some useFormField_Some)

theorem C1_displayed_message_iff_witness:
  "(\<exists>r. useFormItemContext (mk_field [JObj [(''message'', JStr ''Required'')]] True 0) (Some ''r1'') = Inr r
        \<and> error r \<noteq> None)
   \<and> (\<exists>r. useFormField \<lparr>ctx_field = Some (mk_field [JObj [(''message'', JStr ''Required'')]] True 0),
                          ctx_name = ''email''\<rparr> (Some ''r1'') = Inr r
        \<and> ff_error r \<noteq> None)"
  using C1_displayed_message_iff
          [of "mk_field [JObj [(''message'', JStr ''Required'')]] True 0" "''r1''" "''email''" "Some ''r1''"]
  by (simp add: showError_def)

text \<open>
  The claim as stated fails in both hooks: a touched field whose only descriptor is
  \<^verbatim>\<open>null\<close> has \<^verbatim>\<open>showError\<close> and a non-empty list but no message, and an untouched,
  never submitted field with an error has an error object in \<^verbatim>\<open>useFormField\<close>.
\<close>

theorem C1_counterexample:
  "useFormItemContext (mk_field [JNull] True 0) (Some ''r1'') =
     Inr \<lparr>formControlId = ''r1-form-item'',
          formDescriptionId = ''r1-form-item-description'',
          formMessageId = ''r1-form-item-message'',
          error = None, hasError = False\<rparr>
   \<and> showError (mk_field [JNull] True 0)
   \<and> errors (meta (mk_field [JNull] True 0)) \<noteq> []
   \<and> \<not> showError (mk_field [JStr ''Required''] False 0)
   \<and> useFormField \<lparr>ctx_field = Some (mk_field [JStr ''Required''] False 0), ctx_name = ''email''\<rparr>
        (Some ''r1'') =
     Inr \<lparr>ff_id = Some ''r1'', ff_name = ''email'',
          formItemId = ''r1-form-item'',
          ff_formDescriptionId = ''r1-form-item-description'',
          ff_formMessageId = ''r1-form-item-message'',
          ff_error = Some \<lparr>message = JStr ''Required''\<rparr>,
          invalid = False, ff_isDirty = False, ff_isTouched = False, ff_isValidating = False\<rparr>"
  by (simp add: useFormItemContext_def useFormField_def showError_def template_id_def)

text \<open>
  C2 (as amended). In \<^verbatim>\<open>useFormItemContext\<close> a first descriptor that is \<^verbatim>\<open>null\<close> or
  \<^verbatim>\<open>undefined\<close> never gives a message, a boolean or a number is stringified when errors
  are shown, and an object without a string \<^verbatim>\<open>message\<close> gives no message. In
  \<^verbatim>\<open>useFormField\<close> a first descriptor that is not a string, not \<^verbatim>\<open>null\<close> or
  \<^verbatim>\<open>undefined\<close> and not an object with a \<^verbatim>\<open>message\<close> property is stringified.
\<close>

theorem C2_stringify:
  "(errors (meta fld) = d # ds \<longrightarrow>
      (\<exists>r. useFormItemContext fld (Some i) = Inr r \<and>
         (d = JNull \<or> d = JUndefined \<longrightarrow> error r = None) \<and>
         (showError fld \<and> ((\<exists>b. d = JBool b) \<or> (\<exists>txt t. d = JNum txt t))
            \<longrightarrow> error r = Some (js_String d)) \<and>
         ((\<exists>ps. d = JObj ps \<and> (\<forall>m. map_of ps ''message'' \<noteq> Some (JStr m)))
            \<longrightarrow> error r = None)))
   \<and> (errors (meta fld) = d # ds \<and> d \<noteq> JNull \<and> d \<noteq> JUndefined \<and> (\<forall>s. d \<noteq> JStr s)
        \<and> (\<forall>ps. d = JObj ps \<longrightarrow> map_of ps ''message'' = None) \<longrightarrow>
      (\<exists>r. useFormField \<lparr>ctx_field = Some fld, ctx_name = nm\<rparr> iid = Inr r \<and>
         ff_error r = Some \<lparr>message = JStr (js_String d)\<rparr>))"
proof -
  have a: "d = JNull \<or> d = JUndefined \<Longrightarrow> firstErrorMessage d = None"
    by auto
  have b: "(\<exists>b. d = JBool b) \<or> (\<exists>txt t. d = JNum txt t) \<Longrightarrow> firstErrorMessage d = Some (js_String d)"
    by auto
  have c: "\<exists>ps. d = JObj ps \<and> (\<forall>m. map_of ps ''message'' \<noteq> Some (JStr m))
             \<Longrightarrow> firstErrorMessage d = None"
    by (auto split: option.splits jsval.splits)
  have e: "d \<noteq> JNull \<Longrightarrow> d \<noteq> JUndefined \<Longrightarrow> \<forall>ps. d = JObj ps \<longrightarrow> map_of ps ''message'' = None
             \<Longrightarrow> fieldErrorMessage d = JStr (js_String d)"
    by (cases d) auto
  show ?thesis
    using a b c e by (simp add: useFormItemContext_Some useFormField_Some)
qed

theorem C2_stringify_witness:
  "(\<exists>r. useFormItemContext (mk_field [JNum ''42'' True] True 0) (Some ''r1'') = Inr r \<and> error r = Some ''42'')
   \<and> (\<exists>r. useFormItemContext (mk_field [JNum ''1e+21'' True] True 0) (Some ''r1'') = Inr r
         \<and> error r = Some ''1e+21'')
   \<and> (\<exists>r. useFormItemContext (mk_field [JNull] True 0) (Some ''r1'') = Inr r \<and> error r = None)
   \<and> (\<exists>r. useFormItemContext (mk_field [JObj []] True 0) (Some ''r1'') = Inr r \<and> error r = None)
   \<and> (\<exists>r. useFormField \<lparr>ctx_field = Some (mk_field [JNum ''42'' True] True 0), ctx_name = ''age''\<rparr>
             (Some ''r1'') = Inr r
         \<and> ff_error r = Some \<lparr>message = JStr ''42''\<rparr>)
   \<and> (\<exists>r. useFormField \<lparr>ctx_field = Some (mk_field [JNum ''1e+21'' True] True 0), ctx_name = ''age''\<rparr>
             (Some ''r1'') = Inr r
         \<and> ff_error r = Some \<lparr>message = JStr ''1e+21''\<rparr>)"
  using C2_stringify [of "mk_field [JNum ''42'' True] True 0" "JNum ''42'' True" "[]" "''r1''" "''age''" "Some ''r1''"]
        C2_stringify [of "mk_field [JNum ''1e+21'' True] True 0" "JNum ''1e+21'' True" "[]" "''r1''" "''age''"
                         "Some ''r1''"]
        C2_stringify [of "mk_field [JNull] True 0" "JNull" "[]" "''r1''" "''age''" "Some ''r1''"]
        C2_stringify [of "mk_field [JObj []] True 0" "JObj []" "[]" "''r1''" "''age''" "Some ''r1''"]
  by (simp add: showError_def useFormItemContext_Some useFormField_Some)

text \<open>
  The claim as stated fails on both sides: \<^verbatim>\<open>useFormItemContext\<close> does not stringify an
  object without a \<^verbatim>\<open>message\<close>, and \<^verbatim>\<open>useFormField\<close> makes the message
  \<^verbatim>\<open>"null"\<close> out of a \<^verbatim>\<open>null\<close> descriptor.
\<close>

theorem C2_counterexample:
  "useFormItemContext (mk_field [JObj [(''code'', JNum ''7'' True)]] True 0) (Some ''r1'') =
     Inr \<lparr>formControlId = ''r1-form-item'',
          formDescriptionId = ''r1-form-item-description'',
          formMessageId = ''r1-form-item-message'',
          error = None, hasError = False\<rparr>
   \<and> useFormField \<lparr>ctx_field = Some (mk_field [JNull] True 0), ctx_name = ''email''\<rparr> (Some ''r1'') =
     Inr \<lparr>ff_id = Some ''r1'', ff_name = ''email'',
          formItemId = ''r1-form-item'',
          ff_formDescriptionId = ''r1-form-item-description'',
          ff_formMessageId = ''r1-form-item-message'',
          ff_error = Some \<lparr>message = JStr ''null''\<rparr>,
          invalid = True, ff_isDirty = True, ff_isTouched = True, ff_isValidating = False\<rparr>"
  by (simp add: useFormItemContext_def useFormField_def showError_def template_id_def)

text \<open>
  C8. In \<^verbatim>\<open>useFormField\<close> an untouched field with a non-empty error list is reported
  with a non-null \<^verbatim>\<open>error\<close> and \<^verbatim>\<open>invalid\<close> false at once: the error depends on the
  list alone, \<^verbatim>\<open>invalid\<close> also needs the touched flag.
\<close>

theorem C8_error_without_invalid:
  "\<exists>r. useFormField \<lparr>ctx_field = Some fld, ctx_name = nm\<rparr> iid = Inr r
       \<and> (errors (meta fld) \<noteq> [] \<longrightarrow> ff_error r \<noteq> None)
       \<and> (invalid r \<longrightarrow> isTouched (meta fld))
       \<and> (errors (meta fld) \<noteq> [] \<and> \<not> isTouched (meta fld)
            \<longrightarrow> ff_error r \<noteq> None \<and> \<not> invalid r)"
  by (simp add: useFormField_Some)

theorem C8_error_without_invalid_witness:
  "\<exists>r. useFormField \<lparr>ctx_field = Some (mk_field [JStr ''Required''] False 0), ctx_name = ''email''\<rparr>
          (Some ''r1'') = Inr r
       \<and> ff_error r \<noteq> None \<and> \<not> invalid r"
  using C8_error_without_invalid [of "mk_field [JStr ''Required''] False 0" "''email''" "Some ''r1''"]
  by (simp add: useFormField_Some)

section \<open>Rendered attributes and the submit handler\<close>

lemma prop_value_rest_props: "k \<noteq> ''className'' \<Longrightarrow> prop_value (rest_props p) k = prop_value p k"
  by (simp add: prop_value_def rest_props_def)

text \<open>
  C3 (as amended). When the caller's props do not supply them, \<^verbatim>\<open>FormControl\<close> sets
  \<^verbatim>\<open>id\<close> to the control id, \<^verbatim>\<open>aria-describedby\<close> to the description id alone when
  there is no error to display and to the description id, a space and the message id when
  there is one, and \<^verbatim>\<open>aria-invalid\<close> to that same flag. The flag is \<^verbatim>\<open>hasError\<close>
  (\<^verbatim>\<open>showError\<close> and a non-null message) in form.tsx and the non-null error (a
  non-empty error list) in the second module; it is not \<^verbatim>\<open>showError\<close> itself.
\<close>

theorem C3_FormControl_attributes:
  assumes "p ''id'' = None" and "p ''aria-describedby'' = None" and "p ''aria-invalid'' = None"
  shows
  "(\<exists>r el. useFormItemContext fld (Some i) = Inr r \<and> FormControl fld (Some i) p = Inr el \<and>
      (hasError r \<longleftrightarrow> showError fld \<and> error r \<noteq> None) \<and>
      attrs el ''id'' = Some (AVal (JStr (i @ ''-form-item''))) \<and>
      attrs el ''aria-describedby'' =
        Some (AVal (JStr (if hasError r
                          then i @ ''-form-item-description'' @ '' '' @ i @ ''-form-item-message''
                          else i @ ''-form-item-description''))) \<and>
      attrs el ''aria-invalid'' = Some (AVal (JBool (hasError r))))
   \<and> (\<exists>r el. useFormField \<lparr>ctx_field = Some fld, ctx_name = nm\<rparr> (Some i) = Inr r \<and>
         FormControl_part001 \<lparr>ctx_field = Some fld, ctx_name = nm\<rparr> (Some i) p = Inr el \<and>
      (ff_error r \<noteq> None \<longleftrightarrow> errors (meta fld) \<noteq> []) \<and>
      attrs el ''id'' = Some (AVal (JStr (i @ ''-form-item''))) \<and>
      attrs el ''aria-describedby'' =
        Some (AVal (JStr (if ff_error r \<noteq> None
                          then i @ ''-form-item-description'' @ '' '' @ i @ ''-form-item-message''
                          else i @ ''-form-item-description''))) \<and>
      attrs el ''aria-invalid'' = Some (AVal (JBool (ff_error r \<noteq> None))))"
proof -
  have A: "\<exists>r el. useFormItemContext fld (Some i) = Inr r \<and> FormControl fld (Some i) p = Inr el \<and>
      (hasError r \<longleftrightarrow> showError fld \<and> error r \<noteq> None) \<and>
      attrs el ''id'' = Some (AVal (JStr (i @ ''-form-item''))) \<and>
      attrs el ''aria-describedby'' =
        Some (AVal (JStr (if hasError r
                          then i @ ''-form-item-description'' @ '' '' @ i @ ''-form-item-message''
                          else i @ ''-form-item-description''))) \<and>
      attrs el ''aria-invalid'' = Some (AVal (JBool (hasError r)))"
    using assms
    by (simp add: FormControl_def useFormItemContext_Some Let_def map_add_def)
  have B: "\<exists>r el. useFormField \<lparr>ctx_field = Some fld, ctx_name = nm\<rparr> (Some i) = Inr r \<and>
         FormControl_part001 \<lparr>ctx_field = Some fld, ctx_name = nm\<rparr> (Some i) p = Inr el \<and>
      (ff_error r \<noteq> None \<longleftrightarrow> errors (meta fld) \<noteq> []) \<and>
      attrs el ''id'' = Some (AVal (JStr (i @ ''-form-item''))) \<and>
      attrs el ''aria-describedby'' =
        Some (AVal (JStr (if ff_error r \<noteq> None
                          then i @ ''-form-item-description'' @ '' '' @ i @ ''-form-item-message''
                          else i @ ''-form-item-description''))) \<and>
      attrs el ''aria-invalid'' = Some (AVal (JBool (ff_error r \<noteq> None)))"
    using assms
    by (simp add: FormControl_part001_def useFormField_Some template_id_def map_add_def)
  from A B show ?thesis by (rule conjI)
qed

theorem C3_FormControl_attributes_witness:
  "(\<exists>el. FormControl (mk_field [JStr ''Required''] True 0) (Some ''r1'')
            [''data-testid'' \<mapsto> AVal (JStr ''name-input'')] = Inr el \<and>
      attrs el ''id'' = Some (AVal (JStr ''r1-form-item'')) \<and>
      attrs el ''aria-describedby'' = Some (AVal (JStr ''r1-form-item-description r1-form-item-message'')) \<and>
      attrs el ''aria-invalid'' = Some (AVal (JBool True)))
   \<and> (\<exists>el. FormControl_part001 \<lparr>ctx_field = Some (mk_field [JStr ''Required''] True 0), ctx_name = ''name''\<rparr>
            (Some ''r1'') [''data-testid'' \<mapsto> AVal (JStr ''name-input'')] = Inr el \<and>
      attrs el ''id'' = Some (AVal (JStr ''r1-form-item'')) \<and>
      attrs el ''aria-describedby'' = Some (AVal (JStr ''r1-form-item-description r1-form-item-message'')) \<and>
      attrs el ''aria-invalid'' = Some (AVal (JBool True)))"
  using C3_FormControl_attributes
          [of "[''data-testid'' \<mapsto> AVal (JStr ''name-input'')]"
              "mk_field [JStr ''Required''] True 0" "''r1''" "''name''"]
  by (simp add: useFormItemContext_Some useFormField_Some showError_def)

text \<open>
  The claim as stated fails: a touched field without errors has \<^verbatim>\<open>showError\<close> but
  \<^verbatim>\<open>aria-invalid\<close> false and the description id alone in form.tsx, and an untouched,
  never submitted field with an error has \<^verbatim>\<open>aria-invalid\<close> true in the second module.
\<close>

theorem C3_counterexample:
  "showError (mk_field [] True 0)
   \<and> attrs (projr (FormControl (mk_field [] True 0) (Some ''r1'') Map.empty)) ''aria-invalid''
       = Some (AVal (JBool False))
   \<and> attrs (projr (FormControl (mk_field [] True 0) (Some ''r1'') Map.empty)) ''aria-describedby''
       = Some (AVal (JStr ''r1-form-item-description''))
   \<and> \<not> showError (mk_field [JStr ''Required''] False 0)
   \<and> attrs (projr (FormControl_part001
                     \<lparr>ctx_field = Some (mk_field [JStr ''Required''] False 0), ctx_name = ''name''\<rparr>
                     (Some ''r1'') Map.empty)) ''aria-invalid''
       = Some (AVal (JBool True))"
  by (simp add: FormControl_def FormControl_part001_def useFormItemContext_Some useFormField_Some
        showError_def Let_def template_id_def)

text \<open>
  C4 (as amended). On a submit event the \<^verbatim>\<open>Form\<close> of form.tsx, when the caller supplies
  no \<^verbatim>\<open>onSubmit\<close>, stops propagation, prevents the default action and then calls
  \<^verbatim>\<open>handleSubmit\<close>, once. The \<^verbatim>\<open>Form\<close> of the second module installs no handler:
  what runs on a submit event is the caller's \<^verbatim>\<open>onSubmit\<close>, and nothing when there is
  none.
\<close>

theorem C4_submit_handler:
  "(p ''onSubmit'' = None \<longrightarrow>
      dispatch_submit (Form p) = [StopPropagation, PreventDefault, HandleSubmit])
   \<and> dispatch_submit (snd (Form_part001 frm children p)) =
       (case p ''onSubmit'' of Some (AHandler h) \<Rightarrow> h | _ \<Rightarrow> [])"
  by (simp add: dispatch_submit_def Form_def Form_part001_def map_add_def)

theorem C4_submit_handler_witness:
  "dispatch_submit (Form [''data-testid'' \<mapsto> AVal (JStr ''test-form'')])
     = [StopPropagation, PreventDefault, HandleSubmit]
   \<and> dispatch_submit (snd (Form_part001 \<lparr>submissionAttempts = 0\<rparr> JUndefined
        [''onSubmit'' \<mapsto> AHandler [PreventDefault, StopPropagation, HandleSubmit]]))
     = [PreventDefault, StopPropagation, HandleSubmit]"
  using C4_submit_handler [of "[''data-testid'' \<mapsto> AVal (JStr ''test-form'')]"]
        C4_submit_handler [of "[''onSubmit'' \<mapsto> AHandler [PreventDefault, StopPropagation, HandleSubmit]]"
                              "\<lparr>submissionAttempts = 0\<rparr>" JUndefined]
  by simp

text \<open>
  The claim as stated fails for the second module: its \<^verbatim>\<open>Form\<close>, rendered without an
  \<^verbatim>\<open>onSubmit\<close> prop, calls nothing on a submit event.
\<close>

theorem C4_counterexample:
  "dispatch_submit (snd (Form_part001 \<lparr>submissionAttempts = 0\<rparr> JUndefined
                      [''data-testid'' \<mapsto> AVal (JStr ''test-form'')])) = []"
  by (simp add: dispatch_submit_def Form_part001_def)

section \<open>The message component\<close>

lemma FormMessage_Some:
  "FormMessage cn fld (Some i) p =
     (let body = (case (if showError fld \<and> errors (meta fld) \<noteq> []
                        then firstErrorMessage (errors (meta fld) ! 0) else None) of
                    Some m \<Rightarrow> JStr m
                  | None \<Rightarrow> prop_value p ''children'')
      in if \<not> truthy body then Inr None
         else Inr (Some \<lparr>tag = ''p'',
                         attrs = ([''data-slot'' \<mapsto> AVal (JStr ''form-message''),
                                   ''id'' \<mapsto> AVal (JStr (i @ ''-form-item-message'')),
                                   ''className'' \<mapsto> cn ''text-destructive text-sm'' (p ''className'')]
                                  ++ rest_props p)
                                 (''children'' \<mapsto> AVal body)\<rparr>))"
  by (auto simp: FormMessage_def useFormItemContext_Some Let_def prop_value_rest_props
           split: option.splits)

lemma FormMessage_part001_Some:
  "FormMessage_part001 cn \<lparr>ctx_field = Some fld, ctx_name = nm\<rparr> iid p =
     (let body = (if errors (meta fld) \<noteq> []
                  then JStr (js_String (nullish (fieldErrorMessage (errors (meta fld) ! 0)) (JStr [])))
                  else prop_value p ''children'')
      in if \<not> truthy body then Inr None
         else Inr (Some \<lparr>tag = ''p'',
                         attrs = ([''data-slot'' \<mapsto> AVal (JStr ''form-message''),
                                   ''id'' \<mapsto> AVal (JStr (template_id iid @ ''-form-item-message'')),
                                   ''className'' \<mapsto> cn ''text-destructive text-sm'' (p ''className'')]
                                  ++ rest_props p)
                                 (''children'' \<mapsto> AVal body)\<rparr>))"
  by (simp add: FormMessage_part001_def useFormField_Some Let_def prop_value_rest_props)

text \<open>
  C5 (as amended). \<^verbatim>\<open>FormMessage\<close> renders the displayed message when it is set and
  not the empty string; when no message is set it renders the caller's children if they
  are truthy; and when no message is set and the children are absent or falsy it renders
  no DOM node. (In the second module the displayed text is \<^verbatim>\<open>String(message ?? "")\<close>.)
\<close>

theorem C5_FormMessage_body:
  "(\<exists>r. useFormItemContext fld (Some i) = Inr r \<and>
      (\<forall>m. error r = Some m \<and> m \<noteq> [] \<longrightarrow>
         (\<exists>el. FormMessage cn fld (Some i) p = Inr (Some el) \<and>
               attrs el ''children'' = Some (AVal (JStr m)))) \<and>
      (error r = None \<and> truthy (prop_value p ''children'') \<longrightarrow>
         (\<exists>el. FormMessage cn fld (Some i) p = Inr (Some el) \<and>
               attrs el ''children'' = Some (AVal (prop_value p ''children'')))) \<and>
      (error r = None \<and> \<not> truthy (prop_value p ''children'') \<longrightarrow>
         FormMessage cn fld (Some i) p = Inr None))
   \<and> (\<exists>r. useFormField \<lparr>ctx_field = Some fld, ctx_name = nm\<rparr> iid = Inr r \<and>
      (\<forall>e. ff_error r = Some e \<and> js_String (nullish (message e) (JStr [])) \<noteq> [] \<longrightarrow>
         (\<exists>el. FormMessage_part001 cn \<lparr>ctx_field = Some fld, ctx_name = nm\<rparr> iid p = Inr (Some el) \<and>
               attrs el ''children'' = Some (AVal (JStr (js_String (nullish (message e) (JStr []))))))) \<and>
      (ff_error r = None \<and> truthy (prop_value p ''children'') \<longrightarrow>
         (\<exists>el. FormMessage_part001 cn \<lparr>ctx_field = Some fld, ctx_name = nm\<rparr> iid p = Inr (Some el) \<and>
               attrs el ''children'' = Some (AVal (prop_value p ''children'')))) \<and>
      (ff_error r = None \<and> \<not> truthy (prop_value p ''children'') \<longrightarrow>
         FormMessage_part001 cn \<lparr>ctx_field = Some fld, ctx_name = nm\<rparr> iid p = Inr None))"
proof (rule conjI)
  show "\<exists>r. useFormItemContext fld (Some i) = Inr r \<and>
      (\<forall>m. error r = Some m \<and> m \<noteq> [] \<longrightarrow>
         (\<exists>el. FormMessage cn fld (Some i) p = Inr (Some el) \<and>
               attrs el ''children'' = Some (AVal (JStr m)))) \<and>
      (error r = None \<and> truthy (prop_value p ''children'') \<longrightarrow>
         (\<exists>el. FormMessage cn fld (Some i) p = Inr (Some el) \<and>
               attrs el ''children'' = Some (AVal (prop_value p ''children'')))) \<and>
      (error r = None \<and> \<not> truthy (prop_value p ''children'') \<longrightarrow>
         FormMessage cn fld (Some i) p = Inr None)"
    by (auto simp: useFormItemContext_Some FormMessage_Some Let_def)
next
  show "\<exists>r. useFormField \<lparr>ctx_field = Some fld, ctx_name = nm\<rparr> iid = Inr r \<and>
      (\<forall>e. ff_error r = Some e \<and> js_String (nullish (message e) (JStr [])) \<noteq> [] \<longrightarrow>
         (\<exists>el. FormMessage_part001 cn \<lparr>ctx_field = Some fld, ctx_name = nm\<rparr> iid p = Inr (Some el) \<and>
               attrs el ''children'' = Some (AVal (JStr (js_String (nullish (message e) (JStr []))))))) \<and>
      (ff_error r = None \<and> truthy (prop_value p ''children'') \<longrightarrow>
         (\<exists>el. FormMessage_part001 cn \<lparr>ctx_field = Some fld, ctx_name = nm\<rparr> iid p = Inr (Some el) \<and>
               attrs el ''children'' = Some (AVal (prop_value p ''children'')))) \<and>
      (ff_error r = None \<and> \<not> truthy (prop_value p ''children'') \<longrightarrow>
         FormMessage_part001 cn \<lparr>ctx_field = Some fld, ctx_name = nm\<rparr> iid p = Inr None)"
    by (auto simp: useFormField_Some FormMessage_part001_Some Let_def)
qed

theorem C5_FormMessage_body_witness:
  "(\<exists>el. FormMessage cn_join (mk_field [JStr ''Required''] True 0) (Some ''r1'')
            [''children'' \<mapsto> AVal (JStr ''fallback'')] = Inr (Some el) \<and>
         attrs el ''children'' = Some (AVal (JStr ''Required'')))
   \<and> (\<exists>el. FormMessage cn_join (mk_field [] False 0) (Some ''r1'')
            [''children'' \<mapsto> AVal (JStr ''fallback'')] = Inr (Some el) \<and>
         attrs el ''children'' = Some (AVal (JStr ''fallback'')))
   \<and> FormMessage cn_join (mk_field [] False 0) (Some ''r1'') Map.empty = Inr None
   \<and> (\<exists>el. FormMessage_part001 cn_join
              \<lparr>ctx_field = Some (mk_field [JStr ''Required''] True 0), ctx_name = ''name''\<rparr> (Some ''r1'')
              [''children'' \<mapsto> AVal (JStr ''fallback'')] = Inr (Some el) \<and>
         attrs el ''children'' = Some (AVal (JStr ''Required'')))
   \<and> (\<exists>el. FormMessage_part001 cn_join
              \<lparr>ctx_field = Some (mk_field [] False 0), ctx_name = ''name''\<rparr> (Some ''r1'')
              [''children'' \<mapsto> AVal (JStr ''fallback'')] = Inr (Some el) \<and>
         attrs el ''children'' = Some (AVal (JStr ''fallback'')))
   \<and> FormMessage_part001 cn_join
         \<lparr>ctx_field = Some (mk_field [] False 0), ctx_name = ''name''\<rparr> (Some ''r1'') Map.empty = Inr None"
  using C5_FormMessage_body
          [of "mk_field [JStr ''Required''] True 0" "''r1''" cn_join
              "[''children'' \<mapsto> AVal (JStr ''fallback'')]" "''name''" "Some ''r1''"]
        C5_FormMessage_body
          [of "mk_field [] False 0" "''r1''" cn_join
              "[''children'' \<mapsto> AVal (JStr ''fallback'')]" "''name''" "Some ''r1''"]
        C5_FormMessage_body
          [of "mk_field [] False 0" "''r1''" cn_join Map.empty "''name''" "Some ''r1''"]
  by (simp add: useFormItemContext_Some useFormField_Some showError_def prop_value_def)

text \<open>
  The claim as stated fails where the message is set to the empty string: nothing is
  rendered, neither the message nor the children that were supplied.
\<close>

theorem C5_counterexample:
  "error (projr (useFormItemContext (mk_field [JStr []] True 0) (Some ''r1''))) = Some []
   \<and> FormMessage cn_join (mk_field [JStr []] True 0) (Some ''r1'')
        [''children'' \<mapsto> AVal (JStr ''fallback'')] = Inr None
   \<and> ff_error (projr (useFormField \<lparr>ctx_field = Some (mk_field [JStr []] True 0), ctx_name = ''name''\<rparr>
                        (Some ''r1''))) = Some \<lparr>message = JStr []\<rparr>
   \<and> FormMessage_part001 cn_join
        \<lparr>ctx_field = Some (mk_field [JStr []] True 0), ctx_name = ''name''\<rparr> (Some ''r1'')
        [''children'' \<mapsto> AVal (JStr ''fallback'')] = Inr None"
  by (simp add: useFormItemContext_Some useFormField_Some FormMessage_Some FormMessage_part001_Some
        showError_def)

text \<open>
  C9. When errors are displayable and the first descriptor normalizes to the empty string,
  \<^verbatim>\<open>FormMessage\<close> renders no DOM node, whatever children were supplied: in form.tsx
  the empty message is not nullish, so \<^verbatim>\<open>??\<close> keeps it and the truthiness test
  rejects it; in the second module the error object is truthy and its body is the empty
  string.
\<close>

theorem C9_empty_message_renders_nothing:
  "(showError fld \<and> errors (meta fld) = d # ds \<and> firstErrorMessage d = Some [] \<longrightarrow>
      FormMessage cn fld (Some i) p = Inr None)
   \<and> (errors (meta fld) = d # ds \<and> fieldErrorMessage d = JStr [] \<longrightarrow>
      FormMessage_part001 cn \<lparr>ctx_field = Some fld, ctx_name = nm\<rparr> iid p = Inr None)"
  by (simp add: FormMessage_Some FormMessage_part001_Some)

theorem C9_empty_message_renders_nothing_witness:
  "FormMessage cn_join (mk_field [JObj [(''message'', JStr [])]] False 1) (Some ''r1'')
        [''children'' \<mapsto> AVal (JStr ''fallback'')] = Inr None
   \<and> FormMessage_part001 cn_join
        \<lparr>ctx_field = Some (mk_field [JObj [(''message'', JStr [])]] False 1), ctx_name = ''name''\<rparr>
        (Some ''r1'') [''children'' \<mapsto> AVal (JStr ''fallback'')] = Inr None"
  using C9_empty_message_renders_nothing
          [of "mk_field [JObj [(''message'', JStr [])]] False 1" "JObj [(''message'', JStr [])]" "[]"
              cn_join "''r1''" "[''children'' \<mapsto> AVal (JStr ''fallback'')]" "''name''" "Some ''r1''"]
  by (simp add: showError_def)

section \<open>Label, scope guards and the props spread\<close>

lemma rest_props_apply: "k \<noteq> ''className'' \<Longrightarrow> rest_props p k = p k"
  by (simp add: rest_props_def)

text \<open>
  C6 (as amended). In a field row, when the caller's props do not supply these attributes,
  the \<^verbatim>\<open>htmlFor\<close> of \<^verbatim>\<open>FormLabel\<close> equals the \<^verbatim>\<open>id\<close> that
  \<^verbatim>\<open>FormControl\<close> gives the control, both made from the row identifier, and
  \<^verbatim>\<open>data-error\<close> is the error-presence flag: \<^verbatim>\<open>hasError\<close> (\<^verbatim>\<open>showError\<close> and a
  non-null message) in form.tsx, the non-null error (a non-empty error list) in the second
  module; it is not \<^verbatim>\<open>showError\<close> itself.
\<close>

theorem C6_label_targets_control:
  assumes "p ''htmlFor'' = None" and "p ''data-error'' = None" and "q ''id'' = None"
  shows
  "(\<exists>r lab ctl. useFormItemContext fld (Some i) = Inr r \<and>
        FormLabel cn fld (Some i) p = Inr lab \<and> FormControl fld (Some i) q = Inr ctl \<and>
        attrs lab ''htmlFor'' = attrs ctl ''id'' \<and>
        attrs lab ''htmlFor'' = Some (AVal (JStr (i @ ''-form-item''))) \<and>
        attrs lab ''data-error'' = Some (AVal (JBool (hasError r))) \<and>
        (hasError r \<longleftrightarrow> showError fld \<and> error r \<noteq> None))
   \<and> (\<exists>r lab ctl. useFormField \<lparr>ctx_field = Some fld, ctx_name = nm\<rparr> (Some i) = Inr r \<and>
        FormLabel_part001 cn \<lparr>ctx_field = Some fld, ctx_name = nm\<rparr> (Some i) p = Inr lab \<and>
        FormControl_part001 \<lparr>ctx_field = Some fld, ctx_name = nm\<rparr> (Some i) q = Inr ctl \<and>
        attrs lab ''htmlFor'' = attrs ctl ''id'' \<and>
        attrs lab ''htmlFor'' = Some (AVal (JStr (i @ ''-form-item''))) \<and>
        attrs lab ''data-error'' = Some (AVal (JBool (ff_error r \<noteq> None))) \<and>
        (ff_error r \<noteq> None \<longleftrightarrow> errors (meta fld) \<noteq> []))"
proof (rule conjI)
  show "\<exists>r lab ctl. useFormItemContext fld (Some i) = Inr r \<and>
        FormLabel cn fld (Some i) p = Inr lab \<and> FormControl fld (Some i) q = Inr ctl \<and>
        attrs lab ''htmlFor'' = attrs ctl ''id'' \<and>
        attrs lab ''htmlFor'' = Some (AVal (JStr (i @ ''-form-item''))) \<and>
        attrs lab ''data-error'' = Some (AVal (JBool (hasError r))) \<and>
        (hasError r \<longleftrightarrow> showError fld \<and> error r \<noteq> None)"
    using assms
    by (simp add: FormLabel_def FormControl_def useFormItemContext_Some Let_def map_add_def
          rest_props_apply)
next
  show "\<exists>r lab ctl. useFormField \<lparr>ctx_field = Some fld, ctx_name = nm\<rparr> (Some i) = Inr r \<and>
        FormLabel_part001 cn \<lparr>ctx_field = Some fld, ctx_name = nm\<rparr> (Some i) p = Inr lab \<and>
        FormControl_part001 \<lparr>ctx_field = Some fld, ctx_name = nm\<rparr> (Some i) q = Inr ctl \<and>
        attrs lab ''htmlFor'' = attrs ctl ''id'' \<and>
        attrs lab ''htmlFor'' = Some (AVal (JStr (i @ ''-form-item''))) \<and>
        attrs lab ''data-error'' = Some (AVal (JBool (ff_error r \<noteq> None))) \<and>
        (ff_error r \<noteq> None \<longleftrightarrow> errors (meta fld) \<noteq> [])"
    using assms
    by (simp add: FormLabel_part001_def FormControl_part001_def useFormField_Some template_id_def
          map_add_def rest_props_apply)
qed

theorem C6_label_targets_control_witness:
  "(\<exists>lab ctl.
        FormLabel cn_join (mk_field [JStr ''Required''] True 0) (Some ''r1'')
          [''children'' \<mapsto> AVal (JStr ''Name'')] = Inr lab \<and>
        FormControl (mk_field [JStr ''Required''] True 0) (Some ''r1'')
          [''data-testid'' \<mapsto> AVal (JStr ''name-input'')] = Inr ctl \<and>
        attrs lab ''htmlFor'' = attrs ctl ''id'' \<and>
        attrs lab ''htmlFor'' = Some (AVal (JStr ''r1-form-item'')) \<and>
        attrs lab ''data-error'' = Some (AVal (JBool True)))
   \<and> (\<exists>lab ctl.
        FormLabel_part001 cn_join
          \<lparr>ctx_field = Some (mk_field [JStr ''Required''] True 0), ctx_name = ''name''\<rparr> (Some ''r1'')
          [''children'' \<mapsto> AVal (JStr ''Name'')] = Inr lab \<and>
        FormControl_part001
          \<lparr>ctx_field = Some (mk_field [JStr ''Required''] True 0), ctx_name = ''name''\<rparr> (Some ''r1'')
          [''data-testid'' \<mapsto> AVal (JStr ''name-input'')] = Inr ctl \<and>
        attrs lab ''htmlFor'' = attrs ctl ''id'' \<and>
        attrs lab ''htmlFor'' = Some (AVal (JStr ''r1-form-item'')) \<and>
        attrs lab ''data-error'' = Some (AVal (JBool True)))"
  using C6_label_targets_control
          [of "[''children'' \<mapsto> AVal (JStr ''Name'')]"
              "[''data-testid'' \<mapsto> AVal (JStr ''name-input'')]"
              "mk_field [JStr ''Required''] True 0" "''r1''" cn_join "''name''"]
  by (simp add: useFormItemContext_Some useFormField_Some showError_def)

text \<open>
  The claim as stated fails: a touched field without errors has \<^verbatim>\<open>showError\<close> but
  \<^verbatim>\<open>data-error\<close> false in form.tsx, and an untouched, never submitted field with an
  error has \<^verbatim>\<open>data-error\<close> true in the second module.
\<close>

theorem C6_counterexample:
  "showError (mk_field [] True 0)
   \<and> attrs (projr (FormLabel cn_join (mk_field [] True 0) (Some ''r1'') Map.empty)) ''data-error''
       = Some (AVal (JBool False))
   \<and> \<not> showError (mk_field [JStr ''Required''] False 0)
   \<and> attrs (projr (FormLabel_part001 cn_join
                     \<lparr>ctx_field = Some (mk_field [JStr ''Required''] False 0), ctx_name = ''name''\<rparr>
                     (Some ''r1'') Map.empty)) ''data-error''
       = Some (AVal (JBool True))"
  by (simp add: FormLabel_def FormLabel_part001_def useFormItemContext_Some useFormField_Some
        showError_def rest_props_def)

text \<open>
  C7 (as amended). \<^verbatim>\<open>useFormItemContext\<close> and the renderers of form.tsx throw when no
  \<^verbatim>\<open>FormItem\<close> encloses them; \<^verbatim>\<open>FormField\<close> throws when no \<^verbatim>\<open>Form\<close>
  encloses it; \<^verbatim>\<open>useFormField\<close> and the renderers of the second module throw when no
  \<^verbatim>\<open>FormField\<close> encloses them. With the enclosing scopes present none of them throws.
\<close>

theorem C7_scope_guards:
  "useFormItemContext fld None = Inl (Error ''Form Item components should be used within <FormItem>'')
   \<and> FormLabel cn fld None p = Inl (Error ''Form Item components should be used within <FormItem>'')
   \<and> FormControl fld None p = Inl (Error ''Form Item components should be used within <FormItem>'')
   \<and> FormDescription cn fld None p = Inl (Error ''Form Item components should be used within <FormItem>'')
   \<and> FormMessage cn fld None p = Inl (Error ''Form Item components should be used within <FormItem>'')
   \<and> FormField None nm fld render = Inl (Error ''FormField must be used within a Form component'')
   \<and> useFormField \<lparr>ctx_field = None, ctx_name = nm\<rparr> iid
       = Inl (Error ''useFormField should be used within <FormField>'')
   \<and> FormLabel_part001 cn \<lparr>ctx_field = None, ctx_name = nm\<rparr> iid p
       = Inl (Error ''useFormField should be used within <FormField>'')
   \<and> FormControl_part001 \<lparr>ctx_field = None, ctx_name = nm\<rparr> iid p
       = Inl (Error ''useFormField should be used within <FormField>'')
   \<and> FormDescription_part001 cn \<lparr>ctx_field = None, ctx_name = nm\<rparr> iid p
       = Inl (Error ''useFormField should be used within <FormField>'')
   \<and> FormMessage_part001 cn \<lparr>ctx_field = None, ctx_name = nm\<rparr> iid p
       = Inl (Error ''useFormField should be used within <FormField>'')
   \<and> \<not> isl (useFormItemContext fld (Some i))
   \<and> \<not> isl (FormLabel cn fld (Some i) p)
   \<and> \<not> isl (FormControl fld (Some i) p)
   \<and> \<not> isl (FormDescription cn fld (Some i) p)
   \<and> \<not> isl (FormMessage cn fld (Some i) p)
   \<and> \<not> isl (FormField (Some frm) nm fld render)
   \<and> \<not> isl (useFormField \<lparr>ctx_field = Some fld, ctx_name = nm\<rparr> (Some i))
   \<and> \<not> isl (FormLabel_part001 cn \<lparr>ctx_field = Some fld, ctx_name = nm\<rparr> (Some i) p)
   \<and> \<not> isl (FormControl_part001 \<lparr>ctx_field = Some fld, ctx_name = nm\<rparr> (Some i) p)
   \<and> \<not> isl (FormDescription_part001 cn \<lparr>ctx_field = Some fld, ctx_name = nm\<rparr> (Some i) p)
   \<and> \<not> isl (FormMessage_part001 cn \<lparr>ctx_field = Some fld, ctx_name = nm\<rparr> (Some i) p)"
  by (simp add: useFormItemContext_def FormLabel_def FormControl_def FormDescription_def
        FormMessage_def FormField_def useFormField_def FormLabel_part001_def
        FormControl_part001_def FormDescription_part001_def FormMessage_part001_def Let_def)

theorem C7_scope_guards_witness:
  "useFormItemContext (mk_field [] False 0) None
     = Inl (Error ''Form Item components should be used within <FormItem>'')
   \<and> useFormField \<lparr>ctx_field = None, ctx_name = []\<rparr> None
       = Inl (Error ''useFormField should be used within <FormField>'')
   \<and> \<not> isl (FormMessage cn_join (mk_field [] False 0) (Some ''r1'') Map.empty)
   \<and> \<not> isl (FormMessage_part001 cn_join
               \<lparr>ctx_field = Some (mk_field [] False 0), ctx_name = []\<rparr> (Some ''r1'') Map.empty)"
  using C7_scope_guards [of "mk_field [] False 0" cn_join Map.empty "[]" id None "''r1''" "\<lparr>submissionAttempts = 0\<rparr>"]
  by simp

text \<open>
  The claim as stated fails in the second module, which has no guard for the
  \<^verbatim>\<open>FormItem\<close> scope: inside a \<^verbatim>\<open>FormField\<close> but outside any \<^verbatim>\<open>FormItem\<close> the hook
  returns, with ids made from \<^verbatim>\<open>undefined\<close>, and the label renders.
\<close>

theorem C7_counterexample:
  "useFormField \<lparr>ctx_field = Some (mk_field [] False 0), ctx_name = ''name''\<rparr> None =
     Inr \<lparr>ff_id = None, ff_name = ''name'',
          formItemId = ''undefined-form-item'',
          ff_formDescriptionId = ''undefined-form-item-description'',
          ff_formMessageId = ''undefined-form-item-message'',
          ff_error = None,
          invalid = False, ff_isDirty = False, ff_isTouched = False, ff_isValidating = False\<rparr>
   \<and> attrs (projr (FormLabel_part001 cn_join
                     \<lparr>ctx_field = Some (mk_field [] False 0), ctx_name = ''name''\<rparr> None Map.empty))
        ''htmlFor'' = Some (AVal (JStr ''undefined-form-item''))"
  by (simp add: useFormField_Some FormLabel_part001_def template_id_def rest_props_def)

text \<open>
  C10 (as amended). In every component of form.tsx the derived attributes other than
  \<^verbatim>\<open>className\<close> come before the spread of the caller's props, so a prop the caller
  supplies under the same name wins: for \<^verbatim>\<open>Form\<close> and \<^verbatim>\<open>FormControl\<close> every supplied
  prop is the rendered one, and a supplied \<^verbatim>\<open>onSubmit\<close> is what a submit event runs, in
  place of the built-in handler; for \<^verbatim>\<open>FormItem\<close>, \<^verbatim>\<open>FormLabel\<close>,
  \<^verbatim>\<open>FormDescription\<close> and \<^verbatim>\<open>FormMessage\<close> every supplied prop other than
  \<^verbatim>\<open>className\<close> (and, for \<^verbatim>\<open>FormMessage\<close>, \<^verbatim>\<open>children\<close>) is the rendered one. A
  supplied \<^verbatim>\<open>className\<close> does not override: it is taken out of the props and the
  rendered class is \<^verbatim>\<open>cn\<close> of the component's own classes and the caller's. The
  children of \<^verbatim>\<open>FormMessage\<close> are its body: the message when there is one, the
  caller's children otherwise.
\<close>

theorem C10_caller_props_override:
  assumes "p k = Some v"
  shows
  "attrs (Form p) k = Some v
   \<and> (k = ''onSubmit'' \<longrightarrow>
        dispatch_submit (Form p) = (case v of AHandler h \<Rightarrow> h | AVal x \<Rightarrow> []))
   \<and> (\<exists>el. FormControl fld (Some i) p = Inr el \<and> attrs el k = Some v)
   \<and> (k \<noteq> ''className'' \<longrightarrow> attrs (snd (FormItem cn i p)) k = Some v)
   \<and> (k \<noteq> ''className'' \<longrightarrow> (\<exists>el. FormLabel cn fld (Some i) p = Inr el \<and> attrs el k = Some v))
   \<and> (k \<noteq> ''className'' \<longrightarrow>
        (\<exists>el. FormDescription cn fld (Some i) p = Inr el \<and> attrs el k = Some v))
   \<and> (k \<noteq> ''className'' \<and> k \<noteq> ''children'' \<longrightarrow>
        (\<forall>el. FormMessage cn fld (Some i) p = Inr (Some el) \<longrightarrow> attrs el k = Some v))
   \<and> attrs (snd (FormItem cn i p)) ''className'' = Some (cn ''grid gap-2'' (p ''className''))
   \<and> (\<exists>el. FormLabel cn fld (Some i) p = Inr el \<and>
          attrs el ''className'' = Some (cn ''data-[error=true]:text-destructive'' (p ''className'')))
   \<and> (\<exists>el. FormDescription cn fld (Some i) p = Inr el \<and>
          attrs el ''className'' = Some (cn ''text-muted-foreground text-sm'' (p ''className'')))
   \<and> (\<forall>el. FormMessage cn fld (Some i) p = Inr (Some el) \<longrightarrow>
          attrs el ''className'' = Some (cn ''text-destructive text-sm'' (p ''className'')) \<and>
          (\<exists>r. useFormItemContext fld (Some i) = Inr r \<and>
               attrs el ''children'' =
                 Some (AVal (case error r of Some m \<Rightarrow> JStr m | None \<Rightarrow> prop_value p ''children''))))"
proof -
  have 1: "attrs (Form p) k = Some v"
    using assms by (simp add: Form_def map_add_def)
  have 2: "k = ''onSubmit'' \<longrightarrow>
        dispatch_submit (Form p) = (case v of AHandler h \<Rightarrow> h | AVal x \<Rightarrow> [])"
    using assms by (auto simp: dispatch_submit_def Form_def map_add_def split: attr.splits)
  have 3: "\<exists>el. FormControl fld (Some i) p = Inr el \<and> attrs el k = Some v"
    using assms by (simp add: FormControl_def useFormItemContext_Some Let_def map_add_def)
  have 4: "k \<noteq> ''className'' \<longrightarrow> attrs (snd (FormItem cn i p)) k = Some v"
    using assms by (simp add: FormItem_def map_add_def rest_props_apply)
  have 5: "k \<noteq> ''className'' \<longrightarrow> (\<exists>el. FormLabel cn fld (Some i) p = Inr el \<and> attrs el k = Some v)"
    using assms by (simp add: FormLabel_def useFormItemContext_Some map_add_def rest_props_apply)
  have 6: "k \<noteq> ''className'' \<longrightarrow>
        (\<exists>el. FormDescription cn fld (Some i) p = Inr el \<and> attrs el k = Some v)"
    using assms by (simp add: FormDescription_def useFormItemContext_Some map_add_def rest_props_apply)
  have 7: "k \<noteq> ''className'' \<and> k \<noteq> ''children'' \<longrightarrow>
        (\<forall>el. FormMessage cn fld (Some i) p = Inr (Some el) \<longrightarrow> attrs el k = Some v)"
    using assms
    by (auto simp: FormMessage_Some Let_def map_add_def rest_props_apply split: if_splits)
  have 8: "attrs (snd (FormItem cn i p)) ''className'' = Some (cn ''grid gap-2'' (p ''className''))"
    by (simp add: FormItem_def map_add_def rest_props_def)
  have 9: "\<exists>el. FormLabel cn fld (Some i) p = Inr el \<and>
          attrs el ''className'' = Some (cn ''data-[error=true]:text-destructive'' (p ''className''))"
    by (simp add: FormLabel_def useFormItemContext_Some map_add_def rest_props_def)
  have 10: "\<exists>el. FormDescription cn fld (Some i) p = Inr el \<and>
          attrs el ''className'' = Some (cn ''text-muted-foreground text-sm'' (p ''className''))"
    by (simp add: FormDescription_def useFormItemContext_Some map_add_def rest_props_def)
  have 11: "\<forall>el. FormMessage cn fld (Some i) p = Inr (Some el) \<longrightarrow>
          attrs el ''className'' = Some (cn ''text-destructive text-sm'' (p ''className'')) \<and>
          (\<exists>r. useFormItemContext fld (Some i) = Inr r \<and>
               attrs el ''children'' =
                 Some (AVal (case error r of Some m \<Rightarrow> JStr m | None \<Rightarrow> prop_value p ''children'')))"
    by (auto simp: FormMessage_Some useFormItemContext_Some Let_def map_add_def rest_props_def
             split: if_splits)
  from 1 2 3 4 5 6 7 8 9 10 11 show ?thesis by blast
qed

theorem C10_caller_props_override_witness:
  "dispatch_submit (Form [''onSubmit'' \<mapsto> AHandler [CallerCall ''log'']]) = [CallerCall ''log'']
   \<and> (\<exists>el. FormControl (mk_field [JStr ''Required''] True 0) (Some ''r1'')
              [''aria-invalid'' \<mapsto> AVal (JBool False)] = Inr el
           \<and> attrs el ''aria-invalid'' = Some (AVal (JBool False)))
   \<and> (\<exists>el. FormMessage cn_join (mk_field [JStr ''Required''] True 0) (Some ''r1'')
              [''id'' \<mapsto> AVal (JStr ''custom'')] = Inr (Some el)
           \<and> attrs el ''id'' = Some (AVal (JStr ''custom''))
           \<and> attrs el ''className'' = Some (AVal (JStr ''text-destructive text-sm''))
           \<and> attrs el ''children'' = Some (AVal (JStr ''Required'')))"
  using C10_caller_props_override
          [of "[''onSubmit'' \<mapsto> AHandler [CallerCall ''log'']]" "''onSubmit''"
              "AHandler [CallerCall ''log'']"]
        C10_caller_props_override
          [of "[''aria-invalid'' \<mapsto> AVal (JBool False)]" "''aria-invalid''" "AVal (JBool False)"
              "mk_field [JStr ''Required''] True 0" "''r1''"]
        C10_caller_props_override
          [of "[''id'' \<mapsto> AVal (JStr ''custom'')]" "''id''" "AVal (JStr ''custom'')"
              "mk_field [JStr ''Required''] True 0" "''r1''" cn_join]
  by (simp add: FormMessage_Some useFormItemContext_Some showError_def prop_value_def cn_join_def)

text \<open>
  The claim as stated fails at \<^verbatim>\<open>className\<close>: the class the caller supplies to
  \<^verbatim>\<open>FormItem\<close> is merged with the component's own and does not replace it. It also
  fails at the children of \<^verbatim>\<open>FormMessage\<close>: with a message to display, the children the
  caller supplies are not the rendered ones.
\<close>

theorem C10_counterexample:
  "attrs (snd (FormItem cn_join ''r1'' [''className'' \<mapsto> AVal (JStr ''mt-4'')])) ''className''
     = Some (AVal (JStr ''grid gap-2 mt-4''))
   \<and> FormMessage cn_join (mk_field [JStr ''Required''] True 0) (Some ''r1'')
         [''children'' \<mapsto> AVal (JStr ''fallback'')]
     = Inr (Some \<lparr>tag = ''p'',
                    attrs = [''data-slot'' \<mapsto> AVal (JStr ''form-message''),
                             ''id'' \<mapsto> AVal (JStr ''r1-form-item-message''),
                             ''className'' \<mapsto> AVal (JStr ''text-destructive text-sm''),
                             ''children'' \<mapsto> AVal (JStr ''Required'')]\<rparr>)"
  by (auto simp: FormItem_def FormMessage_Some showError_def cn_join_def rest_props_def
        map_add_def fun_eq_iff)

end
